theory Spec2Isabelle
  imports Main
begin

section \<open>Strings, paths and YAML nodes\<close>

text \<open>
  \<open>std::to_string\<close> on the non-negative \<open>int\<close> values the loader passes to it (a loop
  index, \<open>MAX_LAYERS\<close>): the decimal numeral.
\<close>

function to_string :: "nat \<Rightarrow> string" where
  "to_string n =
     (if n < 10 then [''0123456789'' ! n]
      else to_string (n div 10) @ [''0123456789'' ! (n mod 10)])"
  by pat_completeness auto
termination
  by (relation "measure id") auto

declare to_string.simps [simp del]

text \<open>
  \<open>boost::filesystem::path\<close> over POSIX path names (no network-name prefix \<open>//name\<close>).
  \<open>parent_path\<close> removes the last element and the separators before it, keeping a
  root directory; \<open>operator/\<close> appends with a separator unless the left side is empty
  or ends in one, or the right side is empty or starts with one.
\<close>

definition parent_path :: "string \<Rightarrow> string" where
  "parent_path p =
     (let d = rev (dropWhile (\<lambda>c. c \<noteq> CHR ''/'') (rev p));
          t = rev (dropWhile (\<lambda>c. c = CHR ''/'') (rev d))
      in if t = [] \<and> d \<noteq> [] \<and> d \<noteq> p then ''/'' else t)"

definition path_append :: "string \<Rightarrow> string \<Rightarrow> string" where
  "path_append p q =
     (if q = [] then p
      else if hd q \<noteq> CHR ''/'' \<and> p \<noteq> [] \<and> last p \<noteq> CHR ''/'' then p @ ''/'' @ q
      else p @ q)"

text \<open>
  A yaml-cpp node. \<open>YUndefined\<close> is the node \<open>node[key]\<close> gives for a key that is not
  there: it converts to \<open>false\<close>.
\<close>

datatype yaml =
    YUndefined
  | YNull
  | YScalar string
  | YSeq "yaml list"
  | YMap "(string \<times> yaml) list"

text \<open>The errors of the parser library, all of class \<open>YAML::Exception\<close>.\<close>

datatype YAML_Exception = BadFile | BadSubscript | BadConversion | InvalidNode

text \<open>
  Modelled from the spec: the exception classes (\<open>exceptions.h\<close> is not among the
  sources). A description error (\<open>YAMLException\<close>) is built from a message, from a
  message and the parser error it wraps, or from a parser error alone; a plugin-loading
  error (\<open>PluginException\<close>) carries a message. \<open>YAML_Exc\<close> is an error thrown by the
  parser library itself, of its class \<open>YAML::Exception\<close>. Whether \<open>YAMLException\<close> derives
  from \<open>YAML::Exception\<close> is for the absent header to say: it is a parameter of the
  environment below.
\<close>

datatype exn =
    YAML_Exc YAML_Exception
  | YAMLException string
  | YAMLException_with string YAML_Exception
  | YAMLException_from YAML_Exception
  | PluginException string


text \<open>
  How a call ends: it returns, it throws, or it has done something whose behaviour C++
  leaves undefined (\<open>front()\<close> of an empty string).
\<close>

datatype 'a outcome = Ok 'a | Throw exn | Undefined_Behaviour

definition IsDefined :: "yaml \<Rightarrow> bool" where
  "IsDefined n = (n \<noteq> YUndefined)"

fun IsSequence :: "yaml \<Rightarrow> bool" where
  "IsSequence (YSeq xs) = True"
| "IsSequence _ = False"

fun IsMap :: "yaml \<Rightarrow> bool" where
  "IsMap (YMap kvs) = True"
| "IsMap _ = False"

fun ysize :: "yaml \<Rightarrow> nat" where
  "ysize (YSeq xs) = length xs"
| "ysize (YMap kvs) = length kvs"
| "ysize _ = 0"

fun elements :: "yaml \<Rightarrow> yaml list" where
  "elements (YSeq xs) = xs"
| "elements _ = []"

text \<open>
  \<open>node["key"]\<close>: the value of the key in a map, the undefined node when the key is not
  there or the node is a sequence or null; on a scalar yaml-cpp throws \<open>BadSubscript\<close>,
  on an undefined node \<open>InvalidNode\<close>.
\<close>

fun subscript :: "yaml \<Rightarrow> string \<Rightarrow> YAML_Exception + yaml" where
  "subscript (YMap kvs) k = Inr (case map_of kvs k of None \<Rightarrow> YUndefined | Some v \<Rightarrow> v)"
| "subscript (YScalar s) k = Inl BadSubscript"
| "subscript YUndefined k = Inl InvalidNode"
| "subscript _ k = Inr YUndefined"

text \<open>\<open>node.as<std::string>()\<close>: the text of a scalar, \<open>BadConversion\<close> otherwise.\<close>

fun as_string :: "yaml \<Rightarrow> YAML_Exception + string" where
  "as_string (YScalar s) = Inr s"
| "as_string _ = Inl BadConversion"

text \<open>
  The step of \<open>World::LoadModels\<close> (lines 231 to 233) that resolves the \<open>model\<close> path
  against the directory of the world file. \<open>front()\<close> reads the first character.
\<close>

fun front :: "string \<Rightarrow> char outcome" where
  "front [] = Undefined_Behaviour"
| "front (c # cs) = Ok c"

definition resolve_model_path :: "string \<Rightarrow> string \<Rightarrow> string outcome" where
  "resolve_model_path yaml_path model_path =
     (case front model_path of
        Ok c \<Rightarrow>
          if c \<noteq> CHR ''/'' then Ok (path_append (parent_path yaml_path) model_path)
          else Ok model_path
      | Throw e \<Rightarrow> Throw e
      | Undefined_Behaviour \<Rightarrow> Undefined_Behaviour)"


section \<open>The World and its collaborators\<close>

text \<open>
  Member names are written without the trailing underscore of the source
  (\<open>layers\<close> is \<open>layers_\<close>, \<open>physics_body\<close> is \<open>physics_body_\<close>).
\<close>

type_synonym 'd pose = "'d \<times> 'd \<times> 'd"

text \<open>
  A Layer, as far as the World touches it: its name and \<open>body_->physics_body\<close>, the
  pointer to the engine's body (\<open>None\<close> is \<open>nullptr\<close>).
\<close>

record Layer =
  layer_name :: string
  physics_body :: "nat option"

text \<open>
  A Model: its namespace, name and \<open>plugins_node\<close>; \<open>transforms\<close> lists the poses
  that \<open>TransformAll\<close> has applied to its bodies.
\<close>

record 'd Model =
  model_namespace :: string
  model_name :: string
  plugins_node :: yaml
  transforms :: "'d pose list"

record b2World =
  m_contactListener :: bool

text \<open>
  Modelled from the spec: the CollisionFilterRegistry (\<open>collision_filter_registry.cpp\<close>
  is not among the sources) holds the layers registered so far and is full when their
  number has reached \<open>MAX_LAYERS\<close>.
\<close>

record CollisionFilterRegistry =
  layer_id_table :: "string list"

definition IsLayersFull :: "nat \<Rightarrow> CollisionFilterRegistry \<Rightarrow> bool" where
  "IsLayersFull max_layers reg = (max_layers \<le> length (layer_id_table reg))"

text \<open>
  Modelled from the spec: the Timekeeper tracks the elapsed simulation time and exposes
  the fixed step size; \<open>StepTime\<close> advances the time by one step.
\<close>

record 'd Timekeeper =
  tk_time :: 'd
  tk_step_size :: 'd

definition GetStepSize :: "'d Timekeeper \<Rightarrow> 'd" where
  "GetStepSize tk = tk_step_size tk"

definition StepTime :: "'d::plus Timekeeper \<Rightarrow> 'd Timekeeper" where
  "StepTime tk = tk\<lparr>tk_time := tk_time tk + tk_step_size tk\<rparr>"

text \<open>
  What the World does not define itself is a parameter: the files the parser can read,
  the conversion of a scalar to a \<open>double\<close>, the constant \<open>MAX_LAYERS\<close>, the Layer
  builder (it gives the layer's name and the body it created in the engine), the Model
  builder (it gives the model's \<open>plugins\<close> node), the loading of one plugin by the
  PluginManager, and whether the class \<open>YAMLException\<close> derives from \<open>YAML::Exception\<close>,
  so that a handler for \<open>YAML::Exception\<close> catches it.
\<close>

record 'd env =
  LoadFile :: "string \<Rightarrow> YAML_Exception + yaml"
  as_double :: "string \<Rightarrow> 'd option"
  MAX_LAYERS :: nat
  layer_builder :: "CollisionFilterRegistry \<Rightarrow> string \<Rightarrow> yaml \<Rightarrow> exn + (string \<times> nat)"
  model_builder :: "CollisionFilterRegistry \<Rightarrow> string \<Rightarrow> string \<Rightarrow> string \<Rightarrow> exn + yaml"
  plugin_loader :: "(string \<times> yaml) list \<Rightarrow> 'd Model \<Rightarrow> yaml \<Rightarrow> exn option"
  YAMLException_derived :: bool

record 'd World =
  physics_world :: b2World
  layers :: "Layer list"
  models :: "'d Model list"
  cfr :: CollisionFilterRegistry
  plugin_manager :: "(string \<times> yaml) list"

text \<open>
  The calls the World makes on its collaborators and the objects it frees, in the order
  it makes them. Layers and models are named by their index in \<open>layers\<close> and
  \<open>models\<close>; \<open>SetContactListener True\<close> registers the World, \<open>SetContactListener False\<close>
  is the call with \<open>nullptr\<close>.
\<close>

datatype 'd event =
    New_b2World
  | SetContactListener bool
  | Delete_b2World
  | b2World_Step 'd nat nat
  | BeforePhysicsStep "'d Timekeeper"
  | Timekeeper_StepTime
  | AfterPhysicsStep "'d Timekeeper"
  | MakeLayer_call string yaml
  | MakeModel_call string string string
  | TransformAll_call nat "'d pose"
  | Models_push_back nat
  | LoadModelPlugin_call nat yaml
  | Null_physics_body nat
  | DestroyBody nat
  | Delete_Layer nat
  | Delete_Model nat

subsection \<open>Constructor and destructor\<close>

definition World_ctor :: "'d World \<times> 'd event list" where
  "World_ctor =
     (\<lparr>physics_world = \<lparr>m_contactListener = True\<rparr>, layers = [], models = [],
        cfr = \<lparr>layer_id_table = []\<rparr>, plugin_manager = []\<rparr>,
      [New_b2World, SetContactListener True])"

text \<open>
  \<open>delete layers[i]\<close>: by the comment in the destructor, deleting a layer whose body
  pointer is not null has \<open>DestroyBody\<close> remove the body and its fixtures from the engine.
\<close>

definition Layer_delete :: "nat \<Rightarrow> Layer \<Rightarrow> 'd event list" where
  "Layer_delete i layer =
     (case physics_body layer of None \<Rightarrow> [] | Some b \<Rightarrow> [DestroyBody b]) @ [Delete_Layer i]"

function destroy_layers :: "nat \<Rightarrow> 'd World \<Rightarrow> 'd event list \<Rightarrow> 'd World \<times> 'd event list" where
  "destroy_layers i w log =
     (if i < length (layers w) then
        let w1 = w\<lparr>layers := (layers w)[i := (layers w ! i)\<lparr>physics_body := None\<rparr>]\<rparr>
        in destroy_layers (i + 1) w1
             (log @ [Null_physics_body i] @ Layer_delete i (layers w1 ! i))
      else (w, log))"
  by pat_completeness auto
termination
  by (relation "measure (\<lambda>(i, w, log). length (layers w) - i)") auto

declare destroy_layers.simps [simp del]

function destroy_models :: "nat \<Rightarrow> 'd World \<Rightarrow> 'd event list \<Rightarrow> 'd event list" where
  "destroy_models i w log =
     (if i < length (models w) then destroy_models (i + 1) w (log @ [Delete_Model i])
      else log)"
  by pat_completeness auto
termination
  by (relation "measure (\<lambda>(i, w, log). length (models w) - i)") auto

declare destroy_models.simps [simp del]

definition World_dtor :: "'d World \<Rightarrow> 'd event list \<Rightarrow> 'd World \<times> 'd event list" where
  "World_dtor w log =
     (let w1 = w\<lparr>physics_world := (physics_world w)\<lparr>m_contactListener := False\<rparr>\<rparr>;
          log1 = log @ [SetContactListener False];
          (w2, log2) = destroy_layers 0 w1 log1;
          log3 = destroy_models 0 w2 log2
      in (w2, log3 @ [Delete_b2World]))"

subsection \<open>The step loop\<close>

definition Update ::
  "'d::plus Timekeeper \<Rightarrow> 'd World \<Rightarrow> 'd event list \<Rightarrow> 'd Timekeeper \<times> 'd World \<times> 'd event list"
where
  "Update timekeeper w log =
     (let log1 = log @ [BeforePhysicsStep timekeeper];
          log2 = log1 @ [b2World_Step (GetStepSize timekeeper) 10 10];
          timekeeper1 = StepTime timekeeper;
          log3 = log2 @ [Timekeeper_StepTime];
          log4 = log3 @ [AfterPhysicsStep timekeeper1]
      in (timekeeper1, w, log4))"

subsection \<open>Loading layers\<close>

text \<open>
  Modelled from the spec: \<open>Layer::MakeLayer\<close> (\<open>layer.cpp\<close> is not among the sources)
  has the builder build the layer from its entry and registers the layer in the
  CollisionFilterRegistry; the name's uniqueness and the geometry's validity are the
  builder's to check.
\<close>

definition MakeLayer ::
  "'d env \<Rightarrow> CollisionFilterRegistry \<Rightarrow> string \<Rightarrow> yaml \<Rightarrow> exn + (Layer \<times> CollisionFilterRegistry)"
where
  "MakeLayer env reg dir node =
     (case layer_builder env reg dir node of
        Inl e \<Rightarrow> Inl e
      | Inr (nm, body) \<Rightarrow>
          Inr (\<lparr>layer_name = nm, physics_body = Some body\<rparr>,
               reg\<lparr>layer_id_table := layer_id_table reg @ [nm]\<rparr>))"

text \<open>
  The loop of \<open>World::LoadLayers\<close> over the entries of \<open>layers\<close> that are still to be
  loaded. The loops of the source count in \<open>int\<close> against a \<open>size_t\<close> size; the model
  walks the list, which is the same for a sequence of fewer than \<open>2^31\<close> entries.
\<close>

fun LoadLayers_loop ::
  "'d env \<Rightarrow> string \<Rightarrow> yaml list \<Rightarrow> 'd World \<Rightarrow> 'd event list \<Rightarrow>
     unit outcome \<times> 'd World \<times> 'd event list"
where
  "LoadLayers_loop env dir [] w log = (Ok (), w, log)"
| "LoadLayers_loop env dir (node # rest) w log =
     (if IsLayersFull (MAX_LAYERS env) (cfr w) then
        (Throw (YAMLException
           (''Max number of layers reached, max is '' @ to_string (MAX_LAYERS env))), w, log)
      else
        (case MakeLayer env (cfr w) dir node of
           Inl e \<Rightarrow> (Throw e, w, log @ [MakeLayer_call dir node])
         | Inr (layer, reg) \<Rightarrow>
             LoadLayers_loop env dir rest
               (w\<lparr>layers := layers w @ [layer], cfr := reg\<rparr>)
               (log @ [MakeLayer_call dir node])))"

definition LoadLayers ::
  "'d env \<Rightarrow> string \<Rightarrow> 'd World \<Rightarrow> 'd event list \<Rightarrow> unit outcome \<times> 'd World \<times> 'd event list"
where
  \<open>LoadLayers env yaml_path w log =
     (case LoadFile env yaml_path of
        Inl e \<Rightarrow> (Throw (YAMLException_with (''Error loading "'' @ yaml_path @ ''"'') e), w, log)
      | Inr yaml \<Rightarrow>
          (case subscript yaml ''layers'' of
             Inl e \<Rightarrow> (Throw (YAML_Exc e), w, log)
           | Inr ls \<Rightarrow>
               if \<not> IsDefined ls \<or> \<not> IsSequence ls then
                 (Throw (YAMLException ''Missing/invalid world param "layers"''), w, log)
               else LoadLayers_loop env (parent_path yaml_path) (elements ls) w log))\<close>

subsection \<open>Loading models\<close>

text \<open>
  Modelled from the spec: \<open>Model::MakeModel\<close> and \<open>Model::TransformAll\<close> (\<open>model.cpp\<close> is
  not among the sources). A model is built from its own description with the namespace
  and name it is given; \<open>TransformAll\<close> applies a pose to every body of the model.
\<close>

definition MakeModel ::
  "'d env \<Rightarrow> CollisionFilterRegistry \<Rightarrow> string \<Rightarrow> string \<Rightarrow> string \<Rightarrow> exn + 'd Model"
where
  "MakeModel env reg model_yaml_path ns nm =
     (case model_builder env reg model_yaml_path ns nm of
        Inl e \<Rightarrow> Inl e
      | Inr plugins \<Rightarrow>
          Inr \<lparr>model_namespace = ns, model_name = nm, plugins_node = plugins, transforms = []\<rparr>)"

definition TransformAll :: "'d pose \<Rightarrow> 'd Model \<Rightarrow> 'd Model" where
  "TransformAll pose m = m\<lparr>transforms := transforms m @ [pose]\<rparr>"

text \<open>
  The loop of \<open>World::LoadModel\<close> over the declared plugins of the model \<open>m\<close>, which is
  \<open>models[i]\<close>.
\<close>

fun LoadModel_plugins ::
  "'d env \<Rightarrow> 'd Model \<Rightarrow> nat \<Rightarrow> yaml list \<Rightarrow> 'd World \<Rightarrow> 'd event list \<Rightarrow>
     unit outcome \<times> 'd World \<times> 'd event list"
where
  "LoadModel_plugins env m i [] w log = (Ok (), w, log)"
| "LoadModel_plugins env m i (plugin_node # rest) w log =
     (case plugin_loader env (plugin_manager w) m plugin_node of
        Some e \<Rightarrow> (Throw e, w, log @ [LoadModelPlugin_call i plugin_node])
      | None \<Rightarrow>
          LoadModel_plugins env m i rest
            (w\<lparr>plugin_manager := plugin_manager w @ [(model_name m, plugin_node)]\<rparr>)
            (log @ [LoadModelPlugin_call i plugin_node]))"

definition LoadModel ::
  "'d env \<Rightarrow> string \<Rightarrow> string \<Rightarrow> string \<Rightarrow> 'd pose \<Rightarrow> 'd World \<Rightarrow> 'd event list \<Rightarrow>
     unit outcome \<times> 'd World \<times> 'd event list"
where
  \<open>LoadModel env model_yaml_path ns nm pose w log =
     (case MakeModel env (cfr w) model_yaml_path ns nm of
        Inl e \<Rightarrow> (Throw e, w, log @ [MakeModel_call model_yaml_path ns nm])
      | Inr m0 \<Rightarrow>
          let i = length (models w);
              m = TransformAll pose m0;
              w1 = w\<lparr>models := models w @ [m]\<rparr>;
              log1 = log @ [MakeModel_call model_yaml_path ns nm, TransformAll_call i pose,
                            Models_push_back i]
          in if IsDefined (plugins_node m) \<and> \<not> IsSequence (plugins_node m) then
               (Throw (YAMLException (''Invalid "plugins" in '' @ model_name m @ '' model, not a list'')),
                w1, log1)
             else if IsDefined (plugins_node m) then
               LoadModel_plugins env m i (elements (plugins_node m)) w1 log1
             else (Ok (), w1, log1))\<close>

text \<open>The fields of one entry of \<open>models\<close>, read in the order of \<open>World::LoadModels\<close>.\<close>

fun yaml_try :: "YAML_Exception + 'a \<Rightarrow> ('a \<Rightarrow> 'b outcome) \<Rightarrow> 'b outcome" where
  "yaml_try (Inl e) f = Throw (YAML_Exc e)"
| "yaml_try (Inr x) f = f x"

fun and_then :: "'a outcome \<Rightarrow> ('a \<Rightarrow> 'b outcome) \<Rightarrow> 'b outcome" where
  "and_then (Ok x) f = f x"
| "and_then (Throw e) f = Throw e"
| "and_then Undefined_Behaviour f = Undefined_Behaviour"

definition entry_name :: "nat \<Rightarrow> yaml \<Rightarrow> string outcome" where
  "entry_name i node =
     yaml_try (subscript node ''name'') (\<lambda>n.
       if IsDefined n then yaml_try (as_string n) Ok
       else Throw (YAMLException (''Missing model name in model index='' @ to_string i)))"

definition entry_namespace :: "yaml \<Rightarrow> string outcome" where
  "entry_namespace node =
     yaml_try (subscript node ''namespace'') (\<lambda>n.
       if IsDefined n then yaml_try (as_string n) Ok else Ok [])"

text \<open>\<open>node.as<double>()\<close>: the number a scalar stands for, \<open>BadConversion\<close> otherwise.\<close>

definition as_double_node :: "'d env \<Rightarrow> yaml \<Rightarrow> YAML_Exception + 'd" where
  "as_double_node env n =
     (case n of
        YScalar s \<Rightarrow> (case as_double env s of None \<Rightarrow> Inl BadConversion | Some d \<Rightarrow> Inr d)
      | _ \<Rightarrow> Inl BadConversion)"

definition entry_pose :: "'d env \<Rightarrow> string \<Rightarrow> yaml \<Rightarrow> 'd pose outcome" where
  \<open>entry_pose env nm node =
     yaml_try (subscript node ''pose'') (\<lambda>p.
       if IsDefined p \<and> IsSequence p \<and> ysize p = 3 then
         yaml_try (as_double_node env (elements p ! 0)) (\<lambda>x.
         yaml_try (as_double_node env (elements p ! 1)) (\<lambda>y.
         yaml_try (as_double_node env (elements p ! 2)) (\<lambda>theta. Ok (x, y, theta))))
       else Throw (YAMLException (''Missing/invalid "pose" in '' @ nm @ '' model'')))\<close>

definition entry_model :: "string \<Rightarrow> yaml \<Rightarrow> string outcome" where
  \<open>entry_model nm node =
     yaml_try (subscript node ''model'') (\<lambda>m.
       if IsDefined m then yaml_try (as_string m) Ok
       else Throw (YAMLException (''Missing "model" in '' @ nm @ '' model'')))\<close>

definition read_entry ::
  "'d env \<Rightarrow> string \<Rightarrow> nat \<Rightarrow> yaml \<Rightarrow> (string \<times> string \<times> string \<times> 'd pose) outcome"
where
  "read_entry env yaml_path i node =
     and_then (entry_name i node) (\<lambda>nm.
     and_then (entry_namespace node) (\<lambda>ns.
     and_then (entry_pose env nm node) (\<lambda>pose.
     and_then (entry_model nm node) (\<lambda>model_path.
     and_then (resolve_model_path yaml_path model_path) (\<lambda>p.
       Ok (p, ns, nm, pose))))))"

text \<open>The body of the loop of \<open>World::LoadModels\<close> for entry \<open>i\<close>, and the loop.\<close>

definition LoadModels_entry ::
  "'d env \<Rightarrow> string \<Rightarrow> nat \<Rightarrow> yaml \<Rightarrow> 'd World \<Rightarrow> 'd event list \<Rightarrow>
     unit outcome \<times> 'd World \<times> 'd event list"
where
  "LoadModels_entry env yaml_path i node w log =
     (case read_entry env yaml_path i node of
        Ok (p, ns, nm, pose) \<Rightarrow> LoadModel env p ns nm pose w log
      | Throw e \<Rightarrow> (Throw e, w, log)
      | Undefined_Behaviour \<Rightarrow> (Undefined_Behaviour, w, log))"

fun LoadModels_loop ::
  "'d env \<Rightarrow> string \<Rightarrow> nat \<Rightarrow> yaml list \<Rightarrow> 'd World \<Rightarrow> 'd event list \<Rightarrow>
     unit outcome \<times> 'd World \<times> 'd event list"
where
  "LoadModels_loop env yaml_path i [] w log = (Ok (), w, log)"
| "LoadModels_loop env yaml_path i (node # rest) w log =
     (case LoadModels_entry env yaml_path i node w log of
        (Ok u, w1, log1) \<Rightarrow> LoadModels_loop env yaml_path (i + 1) rest w1 log1
      | (Throw e, w1, log1) \<Rightarrow> (Throw e, w1, log1)
      | (Undefined_Behaviour, w1, log1) \<Rightarrow> (Undefined_Behaviour, w1, log1))"

definition LoadModels ::
  "'d env \<Rightarrow> string \<Rightarrow> 'd World \<Rightarrow> 'd event list \<Rightarrow> unit outcome \<times> 'd World \<times> 'd event list"
where
  \<open>LoadModels env yaml_path w log =
     (case LoadFile env yaml_path of
        Inl e \<Rightarrow> (Throw (YAMLException_with (''Error loading "'' @ yaml_path @ ''"'') e), w, log)
      | Inr yaml \<Rightarrow>
          (case subscript yaml ''models'' of
             Inl e \<Rightarrow> (Throw (YAML_Exc e), w, log)
           | Inr ms \<Rightarrow>
               if IsDefined ms \<and> \<not> IsSequence ms then
                 (Throw (YAMLException ''Invalid world param "layers", must be a sequence''), w, log)
               else if IsDefined ms then LoadModels_loop env yaml_path 0 (elements ms) w log
               else (Ok (), w, log)))\<close>

subsection \<open>Making a World\<close>

text \<open>
  The two handlers of \<open>World::MakeWorld\<close>, for \<open>YAML::Exception\<close> and for
  \<open>PluginException\<close>. \<open>handled\<close> says whether one of them catches an exception: an error
  of the parser and a \<open>PluginException\<close> always, a \<open>YAMLException\<close> when the class derives
  from \<open>YAML::Exception\<close>. A handler deletes the World and throws: the first handler a
  \<open>YAMLException\<close> built from what it caught, which for a caught \<open>YAMLException\<close> is taken
  to be that same description error (modelled from the spec: the error is re-raised to
  the caller), the second what it caught. What no handler catches leaves \<open>MakeWorld\<close>
  with the World not deleted. The result of \<open>MakeWorld\<close> is how the call ends, the World
  that it has allocated and that still exists when it ends, and the calls made.
\<close>

fun handled :: "'d env \<Rightarrow> exn \<Rightarrow> bool" where
  "handled env (YAML_Exc e) = True"
| "handled env (PluginException msg) = True"
| "handled env e = YAMLException_derived env"

fun MakeWorld_catch ::
  "'d env \<Rightarrow> unit outcome \<Rightarrow> 'd World \<Rightarrow> 'd event list \<Rightarrow>
     'd World outcome \<times> 'd World option \<times> 'd event list"
where
  "MakeWorld_catch env (Ok u) w log = (Ok w, Some w, log)"
| "MakeWorld_catch env (Throw (YAML_Exc e)) w log =
     (Throw (YAMLException_from e), None, snd (World_dtor w log))"
| "MakeWorld_catch env (Throw (PluginException msg)) w log =
     (Throw (PluginException msg), None, snd (World_dtor w log))"
| "MakeWorld_catch env (Throw e) w log =
     (if YAMLException_derived env then (Throw e, None, snd (World_dtor w log))
      else (Throw e, Some w, log))"
| "MakeWorld_catch env Undefined_Behaviour w log = (Undefined_Behaviour, Some w, log)"

definition MakeWorld_try ::
  "'d env \<Rightarrow> string \<Rightarrow> 'd World \<Rightarrow> 'd event list \<Rightarrow> unit outcome \<times> 'd World \<times> 'd event list"
where
  "MakeWorld_try env yaml_path w log =
     (case LoadLayers env yaml_path w log of
        (Ok u, w1, log1) \<Rightarrow> LoadModels env yaml_path w1 log1
      | (Throw e, w1, log1) \<Rightarrow> (Throw e, w1, log1)
      | (Undefined_Behaviour, w1, log1) \<Rightarrow> (Undefined_Behaviour, w1, log1))"

definition MakeWorld ::
  "'d env \<Rightarrow> string \<Rightarrow> 'd World outcome \<times> 'd World option \<times> 'd event list"
where
  \<open>MakeWorld env yaml_path =
     (case LoadFile env yaml_path of
        Inl e \<Rightarrow> (Throw (YAMLException_with (''Error loading "'' @ yaml_path @ ''"'') e), None, [])
      | Inr yaml \<Rightarrow>
          (case subscript yaml ''properties'' of
             Inl e \<Rightarrow> (Throw (YAML_Exc e), None, [])
           | Inr props \<Rightarrow>
               if IsDefined props \<and> IsMap props then
                 (case World_ctor of (w, log) \<Rightarrow>
                    (case MakeWorld_try env yaml_path w log of
                       (r, w1, log1) \<Rightarrow> MakeWorld_catch env r w1 log1))
               else (Throw (YAMLException ''Missing/invalid world param "properties"''), None, [])))\<close>

subsection \<open>A small environment for concrete runs\<close>

text \<open>
  The world file is \<open>/a/b/world.yaml\<close> and holds the document given; at most two layers
  fit. The Layer builder wants a scalar \<open>name\<close> that is not registered yet. Three model
  files exist: \<open>/a/b/foo.yaml\<close> declares no plugins, \<open>/x/foo.yaml\<close> declares the plugins
  \<open>laser\<close> and \<open>broken\<close>, of which the second cannot be loaded, and \<open>/a/b/bad.yaml\<close> has
  a \<open>plugins\<close> entry that is not a list. A \<open>YAMLException\<close> is a \<open>YAML::Exception\<close> here.
\<close>

definition example_env :: "yaml \<Rightarrow> int env" where
  "example_env doc =
     \<lparr>LoadFile = (\<lambda>p. if p = ''/a/b/world.yaml'' then Inr doc else Inl BadFile),
      as_double = (\<lambda>s. if s = ''0'' then Some 0 else if s = ''1'' then Some 1 else None),
      MAX_LAYERS = 2,
      layer_builder = (\<lambda>reg dir node.
        case subscript node ''name'' of
          Inr (YScalar nm) \<Rightarrow>
            if nm \<in> set (layer_id_table reg) then Inl (YAMLException ''Layer exists'')
            else Inr (nm, length (layer_id_table reg))
        | _ \<Rightarrow> Inl (YAMLException ''Invalid layer'')),
      model_builder = (\<lambda>reg p ns nm.
        if p = ''/a/b/foo.yaml'' then Inr YUndefined
        else if p = ''/x/foo.yaml'' then Inr (YSeq [YScalar ''laser'', YScalar ''broken''])
        else if p = ''/a/b/bad.yaml'' then Inr (YScalar ''laser'')
        else Inl (YAMLException_with ''Error loading model'' BadFile)),
      plugin_loader = (\<lambda>loaded m node.
        if node = YScalar ''broken'' then Some (PluginException ''Cannot load plugin'')
        else None),
      YAMLException_derived = True\<rparr>"

definition example_layer :: "string \<Rightarrow> yaml" where
  "example_layer nm = YMap [(''name'', YScalar nm)]"

definition example_entry :: "string \<Rightarrow> yaml" where
  "example_entry model_path =
     YMap [(''name'', YScalar ''robot''),
           (''pose'', YSeq [YScalar ''0'', YScalar ''1'', YScalar ''0'']),
           (''model'', YScalar model_path)]"

definition example_world :: "yaml list \<Rightarrow> yaml list \<Rightarrow> yaml" where
  "example_world ls ms =
     YMap [(''properties'', YMap []), (''layers'', YSeq ls), (''models'', YSeq ms)]"

text \<open>
  The Layer builder accepts the entries \<open>nodes\<close> one after the other, starting from a
  registry that holds the layers \<open>tbl\<close>, and gives the names and bodies \<open>built\<close>.
\<close>

fun builds ::
  "'d env \<Rightarrow> string \<Rightarrow> string list \<Rightarrow> yaml list \<Rightarrow> (string \<times> nat) list \<Rightarrow> bool"
where
  "builds env dir tbl [] built = (built = [])"
| "builds env dir tbl (node # rest) [] = False"
| "builds env dir tbl (node # rest) (b # bs) =
     (layer_builder env \<lparr>layer_id_table = tbl\<rparr> dir node = Inr b \<and>
      builds env dir (tbl @ [fst b]) rest bs)"

definition built_layer :: "string \<times> nat \<Rightarrow> Layer" where
  "built_layer b = \<lparr>layer_name = fst b, physics_body = Some (snd b)\<rparr>"

section \<open>The destructor and the step loop: what is called, in which order\<close>

lemma destroy_layers_log:
  "snd (destroy_layers i w log) =
     log @ concat (map (\<lambda>j. [Null_physics_body j, Delete_Layer j]) [i..<length (layers w)])"
proof (induction i w log rule: destroy_layers.induct)
  case (1 i w log)
  show ?case
  proof (cases "i < length (layers w)")
    case True
    then show ?thesis
      using "1.IH" [OF True refl]
      by (simp add: destroy_layers.simps [of i w log] Let_def Layer_delete_def upt_conv_Cons)
  next
    case False
    then show ?thesis by (simp add: destroy_layers.simps [of i w log])
  qed
qed

lemma destroy_layers_models:
  "models (fst (destroy_layers i w log)) = models w"
proof (induction i w log rule: destroy_layers.induct)
  case (1 i w log)
  show ?case
  proof (cases "i < length (layers w)")
    case True
    then show ?thesis
      using "1.IH" [OF True refl]
      by (simp add: destroy_layers.simps [of i w log] Let_def)
  next
    case False
    then show ?thesis by (simp add: destroy_layers.simps [of i w log])
  qed
qed

lemma destroy_layers_bodies:
  "map physics_body (layers (fst (destroy_layers i w log))) =
     take i (map physics_body (layers w)) @ replicate (length (layers w) - i) None"
proof (induction i w log rule: destroy_layers.induct)
  case (1 i w log)
  show ?case
  proof (cases "i < length (layers w)")
    case True
    then show ?thesis
      using "1.IH" [OF True refl]
      apply (simp add: destroy_layers.simps [of i w log] Let_def map_update take_Suc_conv_app_nth)
      by (metis Suc_diff_Suc replicate_Suc)
  next
    case False
    then show ?thesis by (simp add: destroy_layers.simps [of i w log])
  qed
qed

lemma destroy_models_log:
  "destroy_models i w log = log @ map Delete_Model [i..<length (models w)]"
proof (induction i w log rule: destroy_models.induct)
  case (1 i w log)
  show ?case
  proof (cases "i < length (models w)")
    case True
    then show ?thesis
      using "1.IH" [OF True]
      by (simp add: destroy_models.simps [of i w log] upt_conv_Cons)
  next
    case False
    then show ?thesis by (simp add: destroy_models.simps [of i w log])
  qed
qed

lemma World_dtor_log:
  "snd (World_dtor w log) =
     log @ [SetContactListener False]
       @ concat (map (\<lambda>i. [Null_physics_body i, Delete_Layer i]) [0..<length (layers w)])
       @ map Delete_Model [0..<length (models w)]
       @ [Delete_b2World]"
proof -
  let ?w1 = "w\<lparr>physics_world := (physics_world w)\<lparr>m_contactListener := False\<rparr>\<rparr>"
  let ?log1 = "log @ [SetContactListener False]"
  obtain w2 log2 where d: "destroy_layers 0 ?w1 ?log1 = (w2, log2)"
    by (cases "destroy_layers 0 ?w1 ?log1")
  have "log2 = ?log1 @ concat (map (\<lambda>i. [Null_physics_body i, Delete_Layer i]) [0..<length (layers w)])"
    using destroy_layers_log [of 0 ?w1 ?log1] d by simp
  moreover have "models w2 = models w"
    using destroy_layers_models [of 0 ?w1 ?log1] d by simp
  ultimately show ?thesis
    by (simp add: World_dtor_def Let_def d destroy_models_log)
qed

lemma destroy_layers_physics_world:
  "physics_world (fst (destroy_layers i w log)) = physics_world w"
proof (induction i w log rule: destroy_layers.induct)
  case (1 i w log)
  show ?case
  proof (cases "i < length (layers w)")
    case True
    then show ?thesis
      using "1.IH" [OF True refl]
      by (simp add: destroy_layers.simps [of i w log] Let_def)
  next
    case False
    then show ?thesis by (simp add: destroy_layers.simps [of i w log])
  qed
qed

lemma World_dtor_fst:
  "fst (World_dtor w log) =
     fst (destroy_layers 0 (w\<lparr>physics_world := (physics_world w)\<lparr>m_contactListener := False\<rparr>\<rparr>)
            (log @ [SetContactListener False]))"
  by (simp add: World_dtor_def Let_def split: prod.splits)

text \<open>
  Claim C2. The destructor makes exactly these calls, in this order: it takes the contact
  listener off the physics engine; for each layer in turn it sets the layer's body
  pointer to null and then frees the layer, and no \<open>DestroyBody\<close> is called for a
  layer's body; it frees each model; it deletes the physics engine last.
\<close>

theorem World_dtor_order:
  "snd (World_dtor w log) =
     log @ [SetContactListener False]
       @ concat (map (\<lambda>i. [Null_physics_body i, Delete_Layer i]) [0..<length (layers w)])
       @ map Delete_Model [0..<length (models w)]
       @ [Delete_b2World]
   \<and> map physics_body (layers (fst (World_dtor w log))) = replicate (length (layers w)) None
   \<and> m_contactListener (physics_world (fst (World_dtor w log))) = False"
proof (intro conjI)
  show "snd (World_dtor w log) =
     log @ [SetContactListener False]
       @ concat (map (\<lambda>i. [Null_physics_body i, Delete_Layer i]) [0..<length (layers w)])
       @ map Delete_Model [0..<length (models w)]
       @ [Delete_b2World]"
    by (rule World_dtor_log)
  show "map physics_body (layers (fst (World_dtor w log))) = replicate (length (layers w)) None"
    by (simp add: World_dtor_fst destroy_layers_bodies)
  show "m_contactListener (physics_world (fst (World_dtor w log))) = False"
    by (simp add: World_dtor_fst destroy_layers_physics_world)
qed

text \<open>
  Claim C3. Every call of \<open>Update\<close> makes exactly these calls, in this order: the
  PluginManager's hook before the step, one step of the physics engine with the
  timekeeper's step size and the iteration counts 10 and 10, the advance of the
  timekeeper's clock, and the PluginManager's hook after the step, which sees the
  advanced clock. The clock has advanced by one step size, and there is one step only.
\<close>

theorem Update_order:
  "Update timekeeper w log =
     (StepTime timekeeper, w,
      log @ [BeforePhysicsStep timekeeper, b2World_Step (tk_step_size timekeeper) 10 10,
             Timekeeper_StepTime, AfterPhysicsStep (StepTime timekeeper)])
   \<and> tk_time (StepTime timekeeper) = tk_time timekeeper + tk_step_size timekeeper
   \<and> tk_step_size (StepTime timekeeper) = tk_step_size timekeeper
   \<and> length (filter (\<lambda>e. \<exists>dt vi pi. e = b2World_Step dt vi pi)
         (drop (length log) (snd (snd (Update timekeeper w log))))) = 1"
  by (simp add: Update_def Let_def StepTime_def GetStepSize_def)

section \<open>Loading one model\<close>

lemma LoadModel_plugins_models:
  "models (fst (snd (LoadModel_plugins env m i ns w log))) = models w"
  by (induction ns arbitrary: w log) (auto split: option.splits)

lemma LoadModel_plugins_layers:
  "layers (fst (snd (LoadModel_plugins env m i ns w log))) = layers w"
  by (induction ns arbitrary: w log) (auto split: option.splits)


lemma LoadModel_built:
  assumes "model_builder env (cfr w) p ns nm = Inr plugins"
  shows "models (fst (snd (LoadModel env p ns nm pose w log))) =
           models w @ [\<lparr>model_namespace = ns, model_name = nm, plugins_node = plugins,
                         transforms = [pose]\<rparr>]"
    and "layers (fst (snd (LoadModel env p ns nm pose w log))) = layers w"
  using assms
  by (simp_all add: LoadModel_def MakeModel_def TransformAll_def Let_def
      LoadModel_plugins_models LoadModel_plugins_layers)





section \<open>Resolving the path of a model\<close>

lemmas entry_defs =
  LoadModels_entry_def read_entry_def entry_name_def entry_namespace_def entry_pose_def
  entry_model_def as_double_node_def IsDefined_def resolve_model_path_def

lemmas example_defs =
  example_env_def example_world_def example_layer_def example_entry_def

text \<open>
  Claim C7. The \<open>model\<close> path of an entry is used as it is when it starts with \<open>/\<close>, and
  is appended to the directory of the world file otherwise. With the world file at
  \<open>/a/b/world.yaml\<close>, \<open>foo.yaml\<close> becomes \<open>/a/b/foo.yaml\<close> and \<open>/x/foo.yaml\<close> stays
  \<open>/x/foo.yaml\<close>; these are the paths the Model builder is called with.
\<close>

theorem model_path_resolution:
  "resolve_model_path yaml_path (c # cs) =
     Ok (if c = CHR ''/'' then c # cs else path_append (parent_path yaml_path) (c # cs))
   \<and> resolve_model_path ''/a/b/world.yaml'' ''foo.yaml'' = Ok ''/a/b/foo.yaml''
   \<and> resolve_model_path ''/a/b/world.yaml'' ''/x/foo.yaml'' = Ok ''/x/foo.yaml''
   \<and> snd (snd (LoadModels_entry (example_env doc) ''/a/b/world.yaml'' 0
                 (example_entry ''foo.yaml'') w [])) =
       [MakeModel_call ''/a/b/foo.yaml'' [] ''robot'',
        TransformAll_call (length (models w)) (0, 1, 0), Models_push_back (length (models w))]
   \<and> snd (snd (LoadModels_entry (example_env doc) ''/a/b/world.yaml'' 0
                 (example_entry ''/x/foo.yaml'') w [])) =
       [MakeModel_call ''/x/foo.yaml'' [] ''robot'',
        TransformAll_call (length (models w)) (0, 1, 0), Models_push_back (length (models w)),
        LoadModelPlugin_call (length (models w)) (YScalar ''laser''),
        LoadModelPlugin_call (length (models w)) (YScalar ''broken'')]"
proof (intro conjI)
  show "resolve_model_path yaml_path (c # cs) =
     Ok (if c = CHR ''/'' then c # cs else path_append (parent_path yaml_path) (c # cs))"
    by (simp add: resolve_model_path_def)
  show "resolve_model_path ''/a/b/world.yaml'' ''foo.yaml'' = Ok ''/a/b/foo.yaml''"
    by (simp add: resolve_model_path_def parent_path_def path_append_def)
  show "resolve_model_path ''/a/b/world.yaml'' ''/x/foo.yaml'' = Ok ''/x/foo.yaml''"
    by (simp add: resolve_model_path_def)
  show "snd (snd (LoadModels_entry (example_env doc) ''/a/b/world.yaml'' 0
                 (example_entry ''foo.yaml'') w [])) =
       [MakeModel_call ''/a/b/foo.yaml'' [] ''robot'',
        TransformAll_call (length (models w)) (0, 1, 0), Models_push_back (length (models w))]"
    by (simp add: entry_defs example_defs parent_path_def path_append_def
        LoadModel_def MakeModel_def TransformAll_def Let_def)
  show "snd (snd (LoadModels_entry (example_env doc) ''/a/b/world.yaml'' 0
                 (example_entry ''/x/foo.yaml'') w [])) =
       [MakeModel_call ''/x/foo.yaml'' [] ''robot'',
        TransformAll_call (length (models w)) (0, 1, 0), Models_push_back (length (models w)),
        LoadModelPlugin_call (length (models w)) (YScalar ''laser''),
        LoadModelPlugin_call (length (models w)) (YScalar ''broken'')]"
    by (simp add: entry_defs example_defs
        LoadModel_def MakeModel_def TransformAll_def Let_def)
qed

text \<open>
  Claim C10. Whether the \<open>model\<close> path is absolute is decided by its first character
  alone. Reading that character is undefined for the empty string and for no other:
  an entry whose \<open>model\<close> is the empty string, and whose other fields are read well,
  ends the loading in undefined behaviour.
\<close>

theorem model_path_front_precondition:
  "resolve_model_path yaml_path [] = Undefined_Behaviour
   \<and> resolve_model_path yaml_path (c # cs) =
       Ok (if c \<noteq> CHR ''/'' then path_append (parent_path yaml_path) (c # cs) else c # cs)
   \<and> (resolve_model_path yaml_path model_path = Undefined_Behaviour) = (model_path = [])
   \<and> (entry_name i node = Ok nm \<and> entry_namespace node = Ok ns
        \<and> entry_pose env nm node = Ok pose \<and> subscript node ''model'' = Inr (YScalar [])
      \<longrightarrow> LoadModels_entry env yaml_path i node w log = (Undefined_Behaviour, w, log))"
proof (intro conjI impI)
  show "resolve_model_path yaml_path [] = Undefined_Behaviour"
    by (simp add: resolve_model_path_def)
  show "resolve_model_path yaml_path (c # cs) =
       Ok (if c \<noteq> CHR ''/'' then path_append (parent_path yaml_path) (c # cs) else c # cs)"
    by (simp add: resolve_model_path_def)
  show "(resolve_model_path yaml_path model_path = Undefined_Behaviour) = (model_path = [])"
    by (cases model_path) (simp_all add: resolve_model_path_def)
next
  assume "entry_name i node = Ok nm \<and> entry_namespace node = Ok ns
        \<and> entry_pose env nm node = Ok pose \<and> subscript node ''model'' = Inr (YScalar [])"
  then show "LoadModels_entry env yaml_path i node w log = (Undefined_Behaviour, w, log)"
    by (simp add: LoadModels_entry_def read_entry_def entry_model_def IsDefined_def
        resolve_model_path_def)
qed

theorem model_path_front_precondition_witness:
  "LoadModels_entry (example_env YNull) ''/a/b/world.yaml'' 0 (example_entry [])
     (fst World_ctor) (snd World_ctor) =
     (Undefined_Behaviour, fst World_ctor, snd World_ctor)
   \<and> resolve_model_path ''/a/b/world.yaml'' [] = (Undefined_Behaviour :: string outcome)"
  using model_path_front_precondition
    [where i = 0 and node = "example_entry []" and nm = "''robot''" and ns = "[]"
       and env = "example_env YNull" and pose = "(0, 1, 0)" and yaml_path = "''/a/b/world.yaml''"
       and w = "fst World_ctor" and log = "snd World_ctor"]
  by (simp add: entry_name_def entry_namespace_def entry_pose_def as_double_node_def
      IsDefined_def example_defs)

section \<open>The message for a models section that is not a sequence\<close>

lemmas run_defs =
  MakeWorld_def MakeWorld_try_def LoadLayers_def LoadModels_def World_ctor_def IsLayersFull_def
  MakeLayer_def LoadModel_def MakeModel_def TransformAll_def Let_def parent_path_def
  path_append_def

text \<open>
  Claim C8, at the input where the code departs from it. A \<open>models\<close> section that is a
  scalar is refused with a \<open>YAMLException\<close>, but its message names the field \<open>layers\<close>,
  not \<open>models\<close>. A world file with no \<open>models\<close> section loads no model and succeeds.
\<close>

theorem LoadModels_not_sequence_names_layers:
  \<open>LoadModels (example_env (YMap [(''properties'', YMap []), (''layers'', YSeq []),
                                  (''models'', YScalar ''robot'')]))
     ''/a/b/world.yaml'' w log =
     (Throw (YAMLException ''Invalid world param "layers", must be a sequence''), w, log)
   \<and> LoadModels (example_env (YMap [(''properties'', YMap []), (''layers'', YSeq [])]))
     ''/a/b/world.yaml'' w log = (Ok (), w, log)\<close>
  by (simp add: LoadModels_def example_env_def IsDefined_def)

section \<open>Loading layers up to the limit\<close>

lemma registry_eq:
  "layer_id_table (reg :: CollisionFilterRegistry) = tbl \<Longrightarrow> reg = \<lparr>layer_id_table = tbl\<rparr>"
  by (cases reg) simp

lemma LoadLayers_loop_builds:
  assumes "builds env dir tbl nodes built"
    and "layer_id_table (cfr w) = tbl"
    and "length tbl + length nodes \<le> MAX_LAYERS env"
  shows "LoadLayers_loop env dir nodes w log =
           (Ok (),
            w\<lparr>layers := layers w @ map built_layer built,
              cfr := \<lparr>layer_id_table = tbl @ map fst built\<rparr>\<rparr>,
            log @ map (MakeLayer_call dir) nodes)"
  using assms
proof (induction nodes arbitrary: tbl built w log)
  case Nil
  then show ?case by (simp add: registry_eq)
next
  case (Cons node rest)
  obtain b bs where built: "built = b # bs"
    using Cons.prems(1) by (cases built) simp_all
  have reg: "cfr w = \<lparr>layer_id_table = tbl\<rparr>"
    using Cons.prems(2) by (rule registry_eq)
  have b: "layer_builder env (cfr w) dir node = Inr b"
    and rest: "builds env dir (tbl @ [fst b]) rest bs"
    using Cons.prems(1) by (simp_all add: built reg)
  have room: "\<not> IsLayersFull (MAX_LAYERS env) (cfr w)"
    using Cons.prems(2,3) by (simp add: IsLayersFull_def)
  let ?w1 = "w\<lparr>layers := layers w @ [built_layer b],
               cfr := \<lparr>layer_id_table = tbl @ [fst b]\<rparr>\<rparr>"
  have step: "LoadLayers_loop env dir (node # rest) w log =
         LoadLayers_loop env dir rest ?w1 (log @ [MakeLayer_call dir node])"
    using room b by (simp add: MakeLayer_def built_layer_def reg split: prod.splits)
  have "LoadLayers_loop env dir rest ?w1 (log @ [MakeLayer_call dir node]) =
          (Ok (),
           ?w1\<lparr>layers := layers ?w1 @ map built_layer bs,
                cfr := \<lparr>layer_id_table = (tbl @ [fst b]) @ map fst bs\<rparr>\<rparr>,
           (log @ [MakeLayer_call dir node]) @ map (MakeLayer_call dir) rest)"
    using Cons.prems(3) by (intro Cons.IH [OF rest]) simp_all
  then show ?case
    unfolding append_Cons step by (simp add: built)
qed

lemma LoadLayers_loop_full:
  assumes "builds env dir tbl nodes built"
    and "layer_id_table (cfr w) = tbl"
    and "length tbl + length nodes = MAX_LAYERS env"
  shows "LoadLayers_loop env dir (nodes @ x # rest) w log =
           (Throw (YAMLException
              (''Max number of layers reached, max is '' @ to_string (MAX_LAYERS env))),
            w\<lparr>layers := layers w @ map built_layer built,
              cfr := \<lparr>layer_id_table = tbl @ map fst built\<rparr>\<rparr>,
            log @ map (MakeLayer_call dir) nodes)"
  using assms
proof (induction nodes arbitrary: tbl built w log)
  case Nil
  then show ?case by (simp add: registry_eq IsLayersFull_def)
next
  case (Cons node more)
  obtain b bs where built: "built = b # bs"
    using Cons.prems(1) by (cases built) simp_all
  have reg: "cfr w = \<lparr>layer_id_table = tbl\<rparr>"
    using Cons.prems(2) by (rule registry_eq)
  have b: "layer_builder env (cfr w) dir node = Inr b"
    and more: "builds env dir (tbl @ [fst b]) more bs"
    using Cons.prems(1) by (simp_all add: built reg)
  have room: "\<not> IsLayersFull (MAX_LAYERS env) (cfr w)"
    using Cons.prems(2,3) by (simp add: IsLayersFull_def)
  let ?w1 = "w\<lparr>layers := layers w @ [built_layer b],
               cfr := \<lparr>layer_id_table = tbl @ [fst b]\<rparr>\<rparr>"
  have step: "LoadLayers_loop env dir (node # more @ x # rest) w log =
         LoadLayers_loop env dir (more @ x # rest) ?w1 (log @ [MakeLayer_call dir node])"
    using room b by (simp add: MakeLayer_def built_layer_def reg split: prod.splits)
  have "LoadLayers_loop env dir (more @ x # rest) ?w1 (log @ [MakeLayer_call dir node]) =
          (Throw (YAMLException
              (''Max number of layers reached, max is '' @ to_string (MAX_LAYERS env))),
           ?w1\<lparr>layers := layers ?w1 @ map built_layer bs,
                cfr := \<lparr>layer_id_table = (tbl @ [fst b]) @ map fst bs\<rparr>\<rparr>,
           (log @ [MakeLayer_call dir node]) @ map (MakeLayer_call dir) more)"
    using Cons.prems(3) by (intro Cons.IH [OF more]) simp_all
  then show ?case
    unfolding append_Cons step by (simp add: built)
qed

lemma builds_length: "builds env dir tbl nodes built \<Longrightarrow> length built = length nodes"
  by (induction env dir tbl nodes built rule: builds.induct) simp_all

text \<open>
  Claim C4. Take a world file whose \<open>layers\<close> sequence starts with \<open>MAX_LAYERS\<close> entries
  that the Layer builder accepts, loaded into a World whose registry is empty. With no
  further entry the loading succeeds. With any further entry it fails with the
  \<open>YAMLException\<close> whose message ends in the number \<open>MAX_LAYERS\<close>; the World then holds
  the \<open>MAX_LAYERS\<close> layers built, and the builder was called for these entries only, so
  the check comes before the entry's layer is built.
\<close>

theorem LoadLayers_limit:
  assumes "LoadFile env yaml_path = Inr doc"
    and "subscript doc ''layers'' = Inr (YSeq (nodes @ extra))"
    and "layer_id_table (cfr w) = []"
    and "length nodes = MAX_LAYERS env"
    and "builds env (parent_path yaml_path) [] nodes built"
  shows "LoadLayers env yaml_path w log =
           (if extra = [] then Ok ()
            else Throw (YAMLException
                   (''Max number of layers reached, max is '' @ to_string (MAX_LAYERS env))),
            w\<lparr>layers := layers w @ map built_layer built,
              cfr := \<lparr>layer_id_table = map fst built\<rparr>\<rparr>,
            log @ map (MakeLayer_call (parent_path yaml_path)) nodes)"
proof (cases extra)
  case Nil
  then show ?thesis
    using assms LoadLayers_loop_builds [OF assms(5,3), where log = log]
    by (simp add: LoadLayers_def IsDefined_def)
next
  case (Cons x rest)
  then show ?thesis
    using assms LoadLayers_loop_full [OF assms(5,3), where x = x and rest = rest and log = log]
    by (simp add: LoadLayers_def IsDefined_def)
qed


theorem LoadLayers_limit_witness:
  "LoadLayers (example_env (example_world [example_layer ''map'', example_layer ''grid'', YNull] []))
     ''/a/b/world.yaml'' (fst World_ctor) (snd World_ctor) =
     (Throw (YAMLException ''Max number of layers reached, max is 2''),
      \<lparr>physics_world = \<lparr>m_contactListener = True\<rparr>,
        layers = [\<lparr>layer_name = ''map'', physics_body = Some 0\<rparr>,
                  \<lparr>layer_name = ''grid'', physics_body = Some 1\<rparr>],
        models = [], cfr = \<lparr>layer_id_table = [''map'', ''grid'']\<rparr>, plugin_manager = []\<rparr>,
      [New_b2World, SetContactListener True, MakeLayer_call ''/a/b'' (example_layer ''map''),
       MakeLayer_call ''/a/b'' (example_layer ''grid'')])
   \<and> fst (LoadLayers (example_env (example_world [example_layer ''map'', example_layer ''grid''] []))
     ''/a/b/world.yaml'' (fst World_ctor) (snd World_ctor)) = Ok ()"
proof -
  have dir: "parent_path ''/a/b/world.yaml'' = ''/a/b''"
    by (simp add: parent_path_def)
  show ?thesis
    using
      LoadLayers_limit [where env = "example_env (example_world [example_layer ''map'', example_layer ''grid'', YNull] [])"
        and yaml_path = "''/a/b/world.yaml''" and nodes = "[example_layer ''map'', example_layer ''grid'']"
        and extra = "[YNull]" and built = "[(''map'', 0), (''grid'', 1)]"
        and w = "fst World_ctor" and log = "snd World_ctor"]
      LoadLayers_limit [where env = "example_env (example_world [example_layer ''map'', example_layer ''grid''] [])"
        and yaml_path = "''/a/b/world.yaml''" and nodes = "[example_layer ''map'', example_layer ''grid'']"
        and extra = "[]" and built = "[(''map'', 0), (''grid'', 1)]"
        and w = "fst World_ctor" and log = "snd World_ctor"]
    by (simp add: dir example_env_def example_world_def example_layer_def World_ctor_def
        built_layer_def to_string.simps)
qed

section \<open>The layers of the World that MakeWorld returns\<close>

lemma IsMap_IsDefined: "IsMap n \<Longrightarrow> IsDefined n"
  by (cases n) (simp_all add: IsDefined_def)

lemma LoadModel_layers:
  "layers (fst (snd (LoadModel env p ns nm pose w log))) = layers w"
  by (simp add: LoadModel_def Let_def LoadModel_plugins_layers split: sum.splits)

lemma LoadModels_entry_layers:
  "layers (fst (snd (LoadModels_entry env p i node w log))) = layers w"
  by (simp add: LoadModels_entry_def LoadModel_layers split: outcome.splits prod.splits)

lemma LoadModels_loop_layers:
  "layers (fst (snd (LoadModels_loop env p i nodes w log))) = layers w"
proof (induction nodes arbitrary: i w log)
  case Nil
  then show ?case by simp
next
  case (Cons node rest)
  obtain r w1 log1 where e: "LoadModels_entry env p i node w log = (r, w1, log1)"
    by (cases "LoadModels_entry env p i node w log")
  have "layers w1 = layers w"
    using LoadModels_entry_layers [of env p i node w log] e by simp
  then show ?case
    using Cons.IH [of "i + 1" w1 log1] by (cases r) (simp_all add: e)
qed

lemma LoadModels_layers:
  "layers (fst (snd (LoadModels env p w log))) = layers w"
  by (simp add: LoadModels_def LoadModels_loop_layers split: sum.splits)

lemma MakeWorld_unfold:
  assumes "LoadFile env yaml_path = Inr doc"
    and "subscript doc ''properties'' = Inr props" and "IsMap props"
  shows "MakeWorld env yaml_path =
           MakeWorld_catch env
             (fst (MakeWorld_try env yaml_path (fst World_ctor) (snd World_ctor)))
             (fst (snd (MakeWorld_try env yaml_path (fst World_ctor) (snd World_ctor))))
             (snd (snd (MakeWorld_try env yaml_path (fst World_ctor) (snd World_ctor))))"
  using assms IsMap_IsDefined [OF assms(3)]
  by (simp add: MakeWorld_def case_prod_beta)

lemma MakeWorld_try_layers_loaded:
  assumes "LoadLayers env yaml_path w log = (Ok (), w1, log1)"
  shows "MakeWorld_try env yaml_path w log = LoadModels env yaml_path w1 log1"
  using assms by (simp add: MakeWorld_try_def)

lemma MakeWorld_try_layers_failed:
  assumes "fst (LoadLayers env yaml_path w log) = Throw e"
  shows "fst (MakeWorld_try env yaml_path w log) = Throw e"
  using assms by (cases "LoadLayers env yaml_path w log") (simp add: MakeWorld_try_def)

text \<open>
  Claim C5. Take a world file with a \<open>properties\<close> map. If \<open>layers\<close> is a sequence of
  at most \<open>MAX_LAYERS\<close> entries that the Layer builder accepts in turn, and the models
  load, then \<open>MakeWorld\<close> returns a World whose \<open>layers\<close> are the layers built from
  the entries, one for each entry and in their order. If \<open>layers\<close> is missing or is not
  a sequence, \<open>MakeWorld\<close> fails with a \<open>YAMLException\<close>.
\<close>

theorem MakeWorld_layers:
  assumes "LoadFile env yaml_path = Inr doc"
    and "subscript doc ''properties'' = Inr props" and "IsMap props"
    and "subscript doc ''layers'' = Inr ls"
  shows \<open>(ls = YSeq nodes \<and> length nodes \<le> MAX_LAYERS env
          \<and> builds env (parent_path yaml_path) [] nodes built
          \<and> fst (LoadModels env yaml_path
                 ((fst World_ctor)\<lparr>layers := map built_layer built,
                                    cfr := \<lparr>layer_id_table = map fst built\<rparr>\<rparr>)
                 (snd World_ctor @ map (MakeLayer_call (parent_path yaml_path)) nodes)) = Ok ()
        \<longrightarrow> (\<exists>w2. fst (MakeWorld env yaml_path) = Ok w2 \<and> layers w2 = map built_layer built
                  \<and> length (layers w2) = length nodes))
     \<and> (\<not> IsDefined ls \<or> \<not> IsSequence ls
        \<longrightarrow> fst (MakeWorld env yaml_path) =
              Throw (YAMLException ''Missing/invalid world param "layers"''))\<close>
proof (intro conjI impI)
  let ?w0 = "fst (World_ctor :: 'a World \<times> 'a event list)"
  let ?log0 = "snd (World_ctor :: 'a World \<times> 'a event list)"
  let ?w1 = "?w0\<lparr>layers := map built_layer built, cfr := \<lparr>layer_id_table = map fst built\<rparr>\<rparr>"
  let ?log1 = "?log0 @ map (MakeLayer_call (parent_path yaml_path)) nodes"
  assume a: "ls = YSeq nodes \<and> length nodes \<le> MAX_LAYERS env
          \<and> builds env (parent_path yaml_path) [] nodes built
          \<and> fst (LoadModels env yaml_path ?w1 ?log1) = Ok ()"
  have "LoadLayers_loop env (parent_path yaml_path) nodes ?w0 ?log0 = (Ok (), ?w1, ?log1)"
    using a LoadLayers_loop_builds [where env = env and dir = "parent_path yaml_path"
        and tbl = "[]" and nodes = nodes and built = built and w = ?w0 and log = ?log0]
    by (simp add: World_ctor_def)
  then have l: "LoadLayers env yaml_path ?w0 ?log0 = (Ok (), ?w1, ?log1)"
    using assms a by (simp add: LoadLayers_def IsDefined_def)
  obtain r w2 log2 where m: "LoadModels env yaml_path ?w1 ?log1 = (r, w2, log2)"
    by (cases "LoadModels env yaml_path ?w1 ?log1")
  have r: "r = Ok ()"
    using a m by simp
  have "layers w2 = layers ?w1"
    using LoadModels_layers [of env yaml_path ?w1 ?log1] m by simp
  then have w2: "layers w2 = map built_layer built"
    by simp
  have "MakeWorld env yaml_path = (Ok w2, Some w2, log2)"
    using m r
    by (simp add: MakeWorld_unfold [OF assms(1-3)] MakeWorld_try_layers_loaded [OF l])
  then show "\<exists>w2. fst (MakeWorld env yaml_path) = Ok w2 \<and> layers w2 = map built_layer built
                  \<and> length (layers w2) = length nodes"
    using w2 a builds_length [of env "parent_path yaml_path" "[]" nodes built] by simp
next
  assume "\<not> IsDefined ls \<or> \<not> IsSequence ls"
  then have \<open>fst (LoadLayers env yaml_path w log) =
          Throw (YAMLException ''Missing/invalid world param "layers"'')\<close> for w log
    using assms by (auto simp add: LoadLayers_def)
  then show \<open>fst (MakeWorld env yaml_path) =
              Throw (YAMLException ''Missing/invalid world param "layers"'')\<close>
    by (simp add: MakeWorld_unfold [OF assms(1-3)] MakeWorld_try_layers_failed)
qed

theorem MakeWorld_layers_witness:
  \<open>(\<exists>w2. fst (MakeWorld (example_env (example_world [example_layer ''map'', example_layer ''grid'']
                                            [example_entry ''foo.yaml''])) ''/a/b/world.yaml'') = Ok w2
         \<and> layers w2 = [\<lparr>layer_name = ''map'', physics_body = Some 0\<rparr>,
                         \<lparr>layer_name = ''grid'', physics_body = Some 1\<rparr>]
         \<and> length (layers w2) = 2)
   \<and> fst (MakeWorld (example_env (YMap [(''properties'', YMap [])])) ''/a/b/world.yaml'') =
       Throw (YAMLException ''Missing/invalid world param "layers"'')
   \<and> fst (MakeWorld (example_env (YMap [(''properties'', YMap []), (''layers'', YScalar ''map'')]))
            ''/a/b/world.yaml'') =
       Throw (YAMLException ''Missing/invalid world param "layers"'')\<close>
proof -
  have dir: "parent_path ''/a/b/world.yaml'' = ''/a/b''"
    by (simp add: parent_path_def)
  show ?thesis
    using
      MakeWorld_layers [where env = "example_env (example_world [example_layer ''map'', example_layer ''grid'']
                                            [example_entry ''foo.yaml''])"
        and yaml_path = "''/a/b/world.yaml''" and props = "YMap []"
        and ls = "YSeq [example_layer ''map'', example_layer ''grid'']"
        and nodes = "[example_layer ''map'', example_layer ''grid'']"
        and built = "[(''map'', 0), (''grid'', 1)]"]
      MakeWorld_layers [where env = "example_env (YMap [(''properties'', YMap [])])"
        and yaml_path = "''/a/b/world.yaml''" and props = "YMap []" and ls = YUndefined]
      MakeWorld_layers [where env = "example_env (YMap [(''properties'', YMap []), (''layers'', YScalar ''map'')])"
        and yaml_path = "''/a/b/world.yaml''" and props = "YMap []" and ls = "YScalar ''map''"]
    by (simp add: dir example_defs entry_defs World_ctor_def built_layer_def LoadModels_def
        LoadModel_def MakeModel_def TransformAll_def Let_def path_append_def numeral_2_eq_2)
qed


section \<open>The fields of a model entry\<close>

lemma LoadModels_loop_append:
  assumes "LoadModels_loop env p i pre w log = (Ok (), w1, log1)"
  shows "LoadModels_loop env p i (pre @ rest) w log =
           LoadModels_loop env p (i + length pre) rest w1 log1"
  using assms
proof (induction pre arbitrary: i w log)
  case Nil
  then show ?case by simp
next
  case (Cons node pre)
  obtain r w' log' where e: "LoadModels_entry env p i node w log = (r, w', log')"
    by (cases "LoadModels_entry env p i node w log")
  show ?case
  proof (cases r)
    case (Ok u)
    then have "LoadModels_loop env p (i + 1) pre w' log' = (Ok (), w1, log1)"
      using Cons.prems e by simp
    then have "LoadModels_loop env p (i + 1) (pre @ rest) w' log' =
                 LoadModels_loop env p (i + 1 + length pre) rest w1 log1"
      by (rule Cons.IH)
    then show ?thesis
      using Ok e by simp
  next
    case (Throw x)
    then show ?thesis using Cons.prems e by simp
  next
    case Undefined_Behaviour
    then show ?thesis using Cons.prems e by simp
  qed
qed

lemma MakeWorld_models_entry:
  assumes "LoadFile env yaml_path = Inr doc"
    and "subscript doc ''properties'' = Inr props" and "IsMap props"
    and "LoadLayers env yaml_path (fst World_ctor) (snd World_ctor) = (Ok (), w1, log1)"
    and "subscript doc ''models'' = Inr (YSeq (pre @ node # post))"
    and "LoadModels_loop env yaml_path 0 pre w1 log1 = (Ok (), w2, log2)"
  shows "MakeWorld env yaml_path =
           MakeWorld_catch env
             (fst (LoadModels_loop env yaml_path (length pre) (node # post) w2 log2))
             (fst (snd (LoadModels_loop env yaml_path (length pre) (node # post) w2 log2)))
             (snd (snd (LoadModels_loop env yaml_path (length pre) (node # post) w2 log2)))"
proof -
  have "LoadModels env yaml_path w1 log1 =
          LoadModels_loop env yaml_path 0 (pre @ node # post) w1 log1"
    using assms(1,5) by (simp add: LoadModels_def IsDefined_def)
  also have "\<dots> = LoadModels_loop env yaml_path (length pre) (node # post) w2 log2"
    using LoadModels_loop_append [OF assms(6), of "node # post"] by simp
  finally show ?thesis
    by (simp add: MakeWorld_unfold [OF assms(1-3)] MakeWorld_try_layers_loaded [OF assms(4)])
qed

lemma LoadModels_loop_entry_throws:
  assumes "read_entry env p i node = Throw e"
  shows "LoadModels_loop env p i (node # post) w log = (Throw e, w, log)"
  using assms by (simp add: LoadModels_entry_def)

lemma LoadModels_loop_last_entry:
  assumes "read_entry env p i node = Ok (path, ns, nm, pose)"
  shows "LoadModels_loop env p i [node] w log = LoadModel env path ns nm pose w log"
proof -
  obtain r w' log' where l: "LoadModel env path ns nm pose w log = (r, w', log')"
    by (cases "LoadModel env path ns nm pose w log")
  show ?thesis
    using assms l by (cases r) (simp_all add: LoadModels_entry_def)
qed

lemma LoadModel_Ok_namespace:
  assumes "LoadModel env p ns nm pose w log = (Ok u, w3, log3)"
  shows "model_namespace (last (models w3)) = ns"
proof (cases "model_builder env (cfr w) p ns nm")
  case (Inl e)
  then show ?thesis
    using assms by (simp add: LoadModel_def MakeModel_def)
next
  case (Inr plugins)
  then show ?thesis
    using LoadModel_built(1) [OF Inr, where pose = pose and log = log] assms by simp
qed

lemma read_entry_no_name:
  assumes "map_of kvs ''name'' = None"
  shows "read_entry env p i (YMap kvs) =
           Throw (YAMLException (''Missing model name in model index='' @ to_string i))"
  using assms by (simp add: read_entry_def entry_name_def IsDefined_def)

lemma read_entry_named:
  assumes "map_of kvs ''name'' = Some (YScalar nm)"
    and "map_of kvs ''namespace'' = None \<or> map_of kvs ''namespace'' = Some (YScalar ns)"
  shows "read_entry env p i (YMap kvs) =
           and_then (entry_pose env nm (YMap kvs)) (\<lambda>pose.
           and_then (entry_model nm (YMap kvs)) (\<lambda>model_path.
           and_then (resolve_model_path p model_path) (\<lambda>path.
             Ok (path, (if map_of kvs ''namespace'' = None then [] else ns), nm, pose))))"
  using assms by (auto simp add: read_entry_def entry_name_def entry_namespace_def IsDefined_def)

lemma entry_pose_invalid:
  assumes "map_of kvs ''pose'' = None \<or>
           (\<exists>ps. map_of kvs ''pose'' = Some ps \<and> (\<not> IsSequence ps \<or> ysize ps \<noteq> 3))"
  shows \<open>entry_pose env nm (YMap kvs) =
           Throw (YAMLException (''Missing/invalid "pose" in '' @ nm @ '' model''))\<close>
  using assms by (auto simp add: entry_pose_def IsDefined_def)

lemma entry_pose_not_numeric:
  assumes "map_of kvs ''pose'' = Some (YSeq [a, b, c])"
    and "as_double_node env a = Inl BadConversion \<or> as_double_node env b = Inl BadConversion
         \<or> as_double_node env c = Inl BadConversion"
  shows "entry_pose env nm (YMap kvs) = Throw (YAML_Exc BadConversion)"
proof -
  have e: "as_double_node env n = Inl y \<Longrightarrow> y = BadConversion" for n y
    by (auto simp add: as_double_node_def split: yaml.splits option.splits)
  show ?thesis
    using assms
    by (cases "as_double_node env a"; cases "as_double_node env b"; cases "as_double_node env c")
       (auto simp add: entry_pose_def IsDefined_def dest: e)
qed

lemma entry_pose_numeric:
  assumes "map_of kvs ''pose'' = Some (YSeq [a, b, c])"
    and "as_double_node env a = Inr x" and "as_double_node env b = Inr y"
    and "as_double_node env c = Inr t"
  shows "entry_pose env nm (YMap kvs) = Ok (x, y, t)"
  using assms by (simp add: entry_pose_def IsDefined_def)

lemma entry_model_missing:
  assumes "map_of kvs ''model'' = None"
  shows \<open>entry_model nm (YMap kvs) = Throw (YAMLException (''Missing "model" in '' @ nm @ '' model''))\<close>
  using assms by (simp add: entry_model_def IsDefined_def)

lemma entry_model_scalar:
  assumes "map_of kvs ''model'' = Some (YScalar s)"
  shows "entry_model nm (YMap kvs) = Ok s"
  using assms by (simp add: entry_model_def IsDefined_def)

text \<open>
  Claim C6. Take a world file whose \<open>properties\<close> and \<open>layers\<close> load, and an entry of
  \<open>models\<close>, a map, that comes after entries that load. If the entry has no \<open>name\<close>,
  \<open>MakeWorld\<close> fails with the \<open>YAMLException\<close> whose message ends in the index of the
  entry. If it has a name, and no \<open>namespace\<close> or a scalar one: a \<open>pose\<close> that is absent,
  not a sequence or not of three elements fails with a \<open>YAMLException\<close> that names the
  model; a \<open>pose\<close> of three elements of which one is not a number fails with the
  \<open>YAMLException\<close> built from the parser's conversion error; with a numeric pose, a
  missing \<open>model\<close> fails with a \<open>YAMLException\<close> that names the model; and with no
  \<open>namespace\<close>, when the entry is the last one and its model loads, \<open>MakeWorld\<close> returns
  the World, and the namespace of the model is the empty string.
\<close>

theorem model_entry_validation:
  assumes "LoadFile env yaml_path = Inr doc"
    and "subscript doc ''properties'' = Inr props" and "IsMap props"
    and "LoadLayers env yaml_path (fst World_ctor) (snd World_ctor) = (Ok (), wa, loga)"
    and "subscript doc ''models'' = Inr (YSeq (pre @ YMap kvs # post))"
    and "LoadModels_loop env yaml_path 0 pre wa loga = (Ok (), wb, logb)"
  shows \<open>(map_of kvs ''name'' = None \<longrightarrow>
            fst (MakeWorld env yaml_path) =
              Throw (YAMLException (''Missing model name in model index='' @ to_string (length pre))))
     \<and> (map_of kvs ''name'' = Some (YScalar nm)
         \<and> (map_of kvs ''namespace'' = None \<or> map_of kvs ''namespace'' = Some (YScalar ns)) \<longrightarrow>
           ((map_of kvs ''pose'' = None
              \<or> (\<exists>ps. map_of kvs ''pose'' = Some ps \<and> (\<not> IsSequence ps \<or> ysize ps \<noteq> 3))) \<longrightarrow>
             fst (MakeWorld env yaml_path) =
               Throw (YAMLException (''Missing/invalid "pose" in '' @ nm @ '' model'')))
         \<and> (\<forall>a b c. map_of kvs ''pose'' = Some (YSeq [a, b, c])
              \<and> (as_double_node env a = Inl BadConversion
                 \<or> as_double_node env b = Inl BadConversion
                 \<or> as_double_node env c = Inl BadConversion) \<longrightarrow>
             fst (MakeWorld env yaml_path) = Throw (YAMLException_from BadConversion))
         \<and> (\<forall>a b c x y t. map_of kvs ''pose'' = Some (YSeq [a, b, c])
              \<and> as_double_node env a = Inr x \<and> as_double_node env b = Inr y
              \<and> as_double_node env c = Inr t \<longrightarrow>
             (map_of kvs ''model'' = None \<longrightarrow>
                fst (MakeWorld env yaml_path) =
                  Throw (YAMLException (''Missing "model" in '' @ nm @ '' model'')))
           \<and> (\<forall>ch cs wc logc. map_of kvs ''namespace'' = None
                \<and> map_of kvs ''model'' = Some (YScalar (ch # cs)) \<and> post = []
                \<and> LoadModel env
                     (if ch = CHR ''/'' then ch # cs
                      else path_append (parent_path yaml_path) (ch # cs))
                     [] nm (x, y, t) wb logb = (Ok (), wc, logc) \<longrightarrow>
                MakeWorld env yaml_path = (Ok wc, Some wc, logc)
                \<and> model_namespace (last (models wc)) = [])))\<close>
proof -
  note mw = MakeWorld_models_entry [OF assms]
  have thrown: "fst (MakeWorld env yaml_path) = fst (MakeWorld_catch env (Throw e) wb logb)"
    if "read_entry env yaml_path (length pre) (YMap kvs) = Throw e" for e
    by (simp add: mw LoadModels_loop_entry_throws [OF that] del: LoadModels_loop.simps)
  have c1: "fst (MakeWorld env yaml_path) =
              Throw (YAMLException (''Missing model name in model index='' @ to_string (length pre)))"
    if "map_of kvs ''name'' = None"
    by (simp add: thrown [OF read_entry_no_name [OF that]])
  have c2: \<open>fst (MakeWorld env yaml_path) =
               Throw (YAMLException (''Missing/invalid "pose" in '' @ nm @ '' model''))\<close>
    if n: "map_of kvs ''name'' = Some (YScalar nm)"
      "map_of kvs ''namespace'' = None \<or> map_of kvs ''namespace'' = Some (YScalar ns)"
      and p: "map_of kvs ''pose'' = None
              \<or> (\<exists>ps. map_of kvs ''pose'' = Some ps \<and> (\<not> IsSequence ps \<or> ysize ps \<noteq> 3))"
  proof -
    have \<open>read_entry env yaml_path (length pre) (YMap kvs) =
            Throw (YAMLException (''Missing/invalid "pose" in '' @ nm @ '' model''))\<close>
      by (simp add: read_entry_named [OF n] entry_pose_invalid [OF p])
    then show ?thesis
      by (simp add: thrown)
  qed
  have c3: "fst (MakeWorld env yaml_path) = Throw (YAMLException_from BadConversion)"
    if n: "map_of kvs ''name'' = Some (YScalar nm)"
      "map_of kvs ''namespace'' = None \<or> map_of kvs ''namespace'' = Some (YScalar ns)"
      and p: "map_of kvs ''pose'' = Some (YSeq [a, b, c])"
        "as_double_node env a = Inl BadConversion \<or> as_double_node env b = Inl BadConversion
         \<or> as_double_node env c = Inl BadConversion" for a b c
  proof -
    have "read_entry env yaml_path (length pre) (YMap kvs) = Throw (YAML_Exc BadConversion)"
      by (simp add: read_entry_named [OF n] entry_pose_not_numeric [OF p])
    then show ?thesis
      by (simp add: thrown)
  qed
  have c4: \<open>fst (MakeWorld env yaml_path) =
               Throw (YAMLException (''Missing "model" in '' @ nm @ '' model''))\<close>
    if n: "map_of kvs ''name'' = Some (YScalar nm)"
      "map_of kvs ''namespace'' = None \<or> map_of kvs ''namespace'' = Some (YScalar ns)"
      and p: "map_of kvs ''pose'' = Some (YSeq [a, b, c])"
        "as_double_node env a = Inr x" "as_double_node env b = Inr y"
        "as_double_node env c = Inr t"
      and m: "map_of kvs ''model'' = None" for a b c x y t
  proof -
    have \<open>read_entry env yaml_path (length pre) (YMap kvs) =
            Throw (YAMLException (''Missing "model" in '' @ nm @ '' model''))\<close>
      by (simp add: read_entry_named [OF n] entry_pose_numeric [OF p] entry_model_missing [OF m])
    then show ?thesis
      by (simp add: thrown)
  qed
  have c5: "MakeWorld env yaml_path = (Ok wc, Some wc, logc)
            \<and> model_namespace (last (models wc)) = []"
    if n: "map_of kvs ''name'' = Some (YScalar nm)"
      "map_of kvs ''namespace'' = None \<or> map_of kvs ''namespace'' = Some (YScalar ns)"
      and p: "map_of kvs ''pose'' = Some (YSeq [a, b, c])"
        "as_double_node env a = Inr x" "as_double_node env b = Inr y"
        "as_double_node env c = Inr t"
      and ns: "map_of kvs ''namespace'' = None"
      and m: "map_of kvs ''model'' = Some (YScalar (ch # cs))"
      and last: "post = []"
      and l: "LoadModel env
                (if ch = CHR ''/'' then ch # cs
                 else path_append (parent_path yaml_path) (ch # cs))
                [] nm (x, y, t) wb logb = (Ok (), wc, logc)"
    for a b c x y t ch cs wc logc
  proof -
    let ?path = "if ch = CHR ''/'' then ch # cs
                 else path_append (parent_path yaml_path) (ch # cs)"
    have "read_entry env yaml_path (length pre) (YMap kvs) = Ok (?path, [], nm, (x, y, t))"
      by (simp add: read_entry_named [OF n] entry_pose_numeric [OF p] entry_model_scalar [OF m]
          ns resolve_model_path_def)
    then have "LoadModels_loop env yaml_path (length pre) [YMap kvs] wb logb = (Ok (), wc, logc)"
      using l by (simp only: LoadModels_loop_last_entry)
    then have "MakeWorld env yaml_path = (Ok wc, Some wc, logc)"
      by (simp add: mw last del: LoadModels_loop.simps)
    then show ?thesis
      using LoadModel_Ok_namespace [OF l] by simp
  qed
  show ?thesis
    using c1 c2 c3 c4 c5 by blast
qed


theorem model_entry_validation_witness:
  \<open>fst (MakeWorld (example_env (example_world [example_layer ''map''] [example_entry ''foo.yaml'', YMap [(''pose'', YSeq [YScalar ''0'', YScalar ''1'', YScalar ''0'']), (''model'', YScalar ''foo.yaml'')]])) ''/a/b/world.yaml'') =
       Throw (YAMLException ''Missing model name in model index=1'')
   \<and> fst (MakeWorld (example_env (example_world [example_layer ''map''] [example_entry ''foo.yaml'', YMap [(''name'', YScalar ''arm''), (''pose'', YSeq [YScalar ''0'', YScalar ''1'']), (''model'', YScalar ''foo.yaml'')]])) ''/a/b/world.yaml'') =
       Throw (YAMLException ''Missing/invalid "pose" in arm model'')
   \<and> fst (MakeWorld (example_env (example_world [example_layer ''map''] [example_entry ''foo.yaml'', YMap [(''name'', YScalar ''arm''), (''pose'', YSeq [YScalar ''0'', YScalar ''east'', YScalar ''0'']), (''model'', YScalar ''foo.yaml'')]])) ''/a/b/world.yaml'') =
       Throw (YAMLException_from BadConversion)
   \<and> fst (MakeWorld (example_env (example_world [example_layer ''map''] [example_entry ''foo.yaml'', YMap [(''name'', YScalar ''arm''), (''pose'', YSeq [YScalar ''0'', YScalar ''1'', YScalar ''0''])]])) ''/a/b/world.yaml'') =
       Throw (YAMLException ''Missing "model" in arm model'')
   \<and> map model_namespace (case fst (MakeWorld (example_env (example_world [example_layer ''map''] [example_entry ''foo.yaml'', YMap [(''name'', YScalar ''arm''), (''pose'', YSeq [YScalar ''0'', YScalar ''1'', YScalar ''0'']), (''model'', YScalar ''foo.yaml'')]])) ''/a/b/world.yaml'') of
         Ok w \<Rightarrow> models w | _ \<Rightarrow> []) = [[], []]\<close>
proof -
  have dir: "parent_path ''/a/b/world.yaml'' = ''/a/b''"
    by (simp add: parent_path_def)
  note defs = dir example_defs entry_defs World_ctor_def LoadLayers_def IsLayersFull_def
    MakeLayer_def LoadModel_def MakeModel_def TransformAll_def Let_def path_append_def
  have v1: \<open>fst (MakeWorld (example_env (example_world [example_layer ''map''] [example_entry ''foo.yaml'', YMap [(''pose'', YSeq [YScalar ''0'', YScalar ''1'', YScalar ''0'']), (''model'', YScalar ''foo.yaml'')]])) ''/a/b/world.yaml'') =
       Throw (YAMLException ''Missing model name in model index=1'')\<close>
    using model_entry_validation
        [where env = "example_env (example_world [example_layer ''map''] [example_entry ''foo.yaml'', YMap [(''pose'', YSeq [YScalar ''0'', YScalar ''1'', YScalar ''0'']), (''model'', YScalar ''foo.yaml'')]])"
           and yaml_path = "''/a/b/world.yaml''" and props = "YMap []"
           and wa = "\<lparr>physics_world = \<lparr>m_contactListener = True\<rparr>,
          layers = [\<lparr>layer_name = ''map'', physics_body = Some 0\<rparr>], models = [],
          cfr = \<lparr>layer_id_table = [''map'']\<rparr>, plugin_manager = []\<rparr>"
           and loga = "[New_b2World, SetContactListener True, MakeLayer_call ''/a/b'' (example_layer ''map'')]"
           and pre = "[example_entry ''foo.yaml'']"
           and kvs = "[(''pose'', YSeq [YScalar ''0'', YScalar ''1'', YScalar ''0'']), (''model'', YScalar ''foo.yaml'')]"
           and post = "[]"
           and wb = "\<lparr>physics_world = \<lparr>m_contactListener = True\<rparr>,
          layers = [\<lparr>layer_name = ''map'', physics_body = Some 0\<rparr>],
          models = [\<lparr>model_namespace = [], model_name = ''robot'', plugins_node = YUndefined,
                      transforms = [(0, 1, 0)]\<rparr>],
          cfr = \<lparr>layer_id_table = [''map'']\<rparr>, plugin_manager = []\<rparr>"
           and logb = "[New_b2World, SetContactListener True, MakeLayer_call ''/a/b'' (example_layer ''map''),
          MakeModel_call ''/a/b/foo.yaml'' [] ''robot'', TransformAll_call 0 (0, 1, 0),
          Models_push_back 0]"
           and nm = "''arm''" and ns = "[]"]
    by (simp add: defs to_string.simps)
  have v2: \<open>fst (MakeWorld (example_env (example_world [example_layer ''map''] [example_entry ''foo.yaml'', YMap [(''name'', YScalar ''arm''), (''pose'', YSeq [YScalar ''0'', YScalar ''1'']), (''model'', YScalar ''foo.yaml'')]])) ''/a/b/world.yaml'') =
       Throw (YAMLException ''Missing/invalid "pose" in arm model'')\<close>
    using model_entry_validation
        [where env = "example_env (example_world [example_layer ''map''] [example_entry ''foo.yaml'', YMap [(''name'', YScalar ''arm''), (''pose'', YSeq [YScalar ''0'', YScalar ''1'']), (''model'', YScalar ''foo.yaml'')]])"
           and yaml_path = "''/a/b/world.yaml''" and props = "YMap []"
           and wa = "\<lparr>physics_world = \<lparr>m_contactListener = True\<rparr>,
          layers = [\<lparr>layer_name = ''map'', physics_body = Some 0\<rparr>], models = [],
          cfr = \<lparr>layer_id_table = [''map'']\<rparr>, plugin_manager = []\<rparr>"
           and loga = "[New_b2World, SetContactListener True, MakeLayer_call ''/a/b'' (example_layer ''map'')]"
           and pre = "[example_entry ''foo.yaml'']"
           and kvs = "[(''name'', YScalar ''arm''), (''pose'', YSeq [YScalar ''0'', YScalar ''1'']), (''model'', YScalar ''foo.yaml'')]"
           and post = "[]"
           and wb = "\<lparr>physics_world = \<lparr>m_contactListener = True\<rparr>,
          layers = [\<lparr>layer_name = ''map'', physics_body = Some 0\<rparr>],
          models = [\<lparr>model_namespace = [], model_name = ''robot'', plugins_node = YUndefined,
                      transforms = [(0, 1, 0)]\<rparr>],
          cfr = \<lparr>layer_id_table = [''map'']\<rparr>, plugin_manager = []\<rparr>"
           and logb = "[New_b2World, SetContactListener True, MakeLayer_call ''/a/b'' (example_layer ''map''),
          MakeModel_call ''/a/b/foo.yaml'' [] ''robot'', TransformAll_call 0 (0, 1, 0),
          Models_push_back 0]"
           and nm = "''arm''" and ns = "[]"]
    by (simp add: defs to_string.simps)
  have v3: \<open>fst (MakeWorld (example_env (example_world [example_layer ''map''] [example_entry ''foo.yaml'', YMap [(''name'', YScalar ''arm''), (''pose'', YSeq [YScalar ''0'', YScalar ''east'', YScalar ''0'']), (''model'', YScalar ''foo.yaml'')]])) ''/a/b/world.yaml'') =
       Throw (YAMLException_from BadConversion)\<close>
    using model_entry_validation
        [where env = "example_env (example_world [example_layer ''map''] [example_entry ''foo.yaml'', YMap [(''name'', YScalar ''arm''), (''pose'', YSeq [YScalar ''0'', YScalar ''east'', YScalar ''0'']), (''model'', YScalar ''foo.yaml'')]])"
           and yaml_path = "''/a/b/world.yaml''" and props = "YMap []"
           and wa = "\<lparr>physics_world = \<lparr>m_contactListener = True\<rparr>,
          layers = [\<lparr>layer_name = ''map'', physics_body = Some 0\<rparr>], models = [],
          cfr = \<lparr>layer_id_table = [''map'']\<rparr>, plugin_manager = []\<rparr>"
           and loga = "[New_b2World, SetContactListener True, MakeLayer_call ''/a/b'' (example_layer ''map'')]"
           and pre = "[example_entry ''foo.yaml'']"
           and kvs = "[(''name'', YScalar ''arm''), (''pose'', YSeq [YScalar ''0'', YScalar ''east'', YScalar ''0'']), (''model'', YScalar ''foo.yaml'')]"
           and post = "[]"
           and wb = "\<lparr>physics_world = \<lparr>m_contactListener = True\<rparr>,
          layers = [\<lparr>layer_name = ''map'', physics_body = Some 0\<rparr>],
          models = [\<lparr>model_namespace = [], model_name = ''robot'', plugins_node = YUndefined,
                      transforms = [(0, 1, 0)]\<rparr>],
          cfr = \<lparr>layer_id_table = [''map'']\<rparr>, plugin_manager = []\<rparr>"
           and logb = "[New_b2World, SetContactListener True, MakeLayer_call ''/a/b'' (example_layer ''map''),
          MakeModel_call ''/a/b/foo.yaml'' [] ''robot'', TransformAll_call 0 (0, 1, 0),
          Models_push_back 0]"
           and nm = "''arm''" and ns = "[]"]
    by (simp add: defs to_string.simps)
  have v4: \<open>fst (MakeWorld (example_env (example_world [example_layer ''map''] [example_entry ''foo.yaml'', YMap [(''name'', YScalar ''arm''), (''pose'', YSeq [YScalar ''0'', YScalar ''1'', YScalar ''0''])]])) ''/a/b/world.yaml'') =
       Throw (YAMLException ''Missing "model" in arm model'')\<close>
    using model_entry_validation
        [where env = "example_env (example_world [example_layer ''map''] [example_entry ''foo.yaml'', YMap [(''name'', YScalar ''arm''), (''pose'', YSeq [YScalar ''0'', YScalar ''1'', YScalar ''0''])]])"
           and yaml_path = "''/a/b/world.yaml''" and props = "YMap []"
           and wa = "\<lparr>physics_world = \<lparr>m_contactListener = True\<rparr>,
          layers = [\<lparr>layer_name = ''map'', physics_body = Some 0\<rparr>], models = [],
          cfr = \<lparr>layer_id_table = [''map'']\<rparr>, plugin_manager = []\<rparr>"
           and loga = "[New_b2World, SetContactListener True, MakeLayer_call ''/a/b'' (example_layer ''map'')]"
           and pre = "[example_entry ''foo.yaml'']"
           and kvs = "[(''name'', YScalar ''arm''), (''pose'', YSeq [YScalar ''0'', YScalar ''1'', YScalar ''0''])]"
           and post = "[]"
           and wb = "\<lparr>physics_world = \<lparr>m_contactListener = True\<rparr>,
          layers = [\<lparr>layer_name = ''map'', physics_body = Some 0\<rparr>],
          models = [\<lparr>model_namespace = [], model_name = ''robot'', plugins_node = YUndefined,
                      transforms = [(0, 1, 0)]\<rparr>],
          cfr = \<lparr>layer_id_table = [''map'']\<rparr>, plugin_manager = []\<rparr>"
           and logb = "[New_b2World, SetContactListener True, MakeLayer_call ''/a/b'' (example_layer ''map''),
          MakeModel_call ''/a/b/foo.yaml'' [] ''robot'', TransformAll_call 0 (0, 1, 0),
          Models_push_back 0]"
           and nm = "''arm''" and ns = "[]"]
    by (simp add: defs to_string.simps)
  have \<open>MakeWorld (example_env (example_world [example_layer ''map''] [example_entry ''foo.yaml'', YMap [(''name'', YScalar ''arm''), (''pose'', YSeq [YScalar ''0'', YScalar ''1'', YScalar ''0'']), (''model'', YScalar ''foo.yaml'')]])) ''/a/b/world.yaml'' =
          (Ok \<lparr>physics_world = \<lparr>m_contactListener = True\<rparr>,
          layers = [\<lparr>layer_name = ''map'', physics_body = Some 0\<rparr>],
          models = [\<lparr>model_namespace = [], model_name = ''robot'', plugins_node = YUndefined,
                      transforms = [(0, 1, 0)]\<rparr>,
                    \<lparr>model_namespace = [], model_name = ''arm'', plugins_node = YUndefined,
                      transforms = [(0, 1, 0)]\<rparr>],
          cfr = \<lparr>layer_id_table = [''map'']\<rparr>, plugin_manager = []\<rparr>,
           Some \<lparr>physics_world = \<lparr>m_contactListener = True\<rparr>,
          layers = [\<lparr>layer_name = ''map'', physics_body = Some 0\<rparr>],
          models = [\<lparr>model_namespace = [], model_name = ''robot'', plugins_node = YUndefined,
                      transforms = [(0, 1, 0)]\<rparr>,
                    \<lparr>model_namespace = [], model_name = ''arm'', plugins_node = YUndefined,
                      transforms = [(0, 1, 0)]\<rparr>],
          cfr = \<lparr>layer_id_table = [''map'']\<rparr>, plugin_manager = []\<rparr>,
           [New_b2World, SetContactListener True, MakeLayer_call ''/a/b'' (example_layer ''map''),
          MakeModel_call ''/a/b/foo.yaml'' [] ''robot'', TransformAll_call 0 (0, 1, 0),
          Models_push_back 0,
          MakeModel_call ''/a/b/foo.yaml'' [] ''arm'', TransformAll_call 1 (0, 1, 0),
          Models_push_back 1])\<close>
    using model_entry_validation
        [where env = "example_env (example_world [example_layer ''map''] [example_entry ''foo.yaml'', YMap [(''name'', YScalar ''arm''), (''pose'', YSeq [YScalar ''0'', YScalar ''1'', YScalar ''0'']), (''model'', YScalar ''foo.yaml'')]])"
           and yaml_path = "''/a/b/world.yaml''" and props = "YMap []"
           and wa = "\<lparr>physics_world = \<lparr>m_contactListener = True\<rparr>,
          layers = [\<lparr>layer_name = ''map'', physics_body = Some 0\<rparr>], models = [],
          cfr = \<lparr>layer_id_table = [''map'']\<rparr>, plugin_manager = []\<rparr>"
           and loga = "[New_b2World, SetContactListener True, MakeLayer_call ''/a/b'' (example_layer ''map'')]"
           and pre = "[example_entry ''foo.yaml'']"
           and kvs = "[(''name'', YScalar ''arm''), (''pose'', YSeq [YScalar ''0'', YScalar ''1'', YScalar ''0'']), (''model'', YScalar ''foo.yaml'')]"
           and post = "[]"
           and wb = "\<lparr>physics_world = \<lparr>m_contactListener = True\<rparr>,
          layers = [\<lparr>layer_name = ''map'', physics_body = Some 0\<rparr>],
          models = [\<lparr>model_namespace = [], model_name = ''robot'', plugins_node = YUndefined,
                      transforms = [(0, 1, 0)]\<rparr>],
          cfr = \<lparr>layer_id_table = [''map'']\<rparr>, plugin_manager = []\<rparr>"
           and logb = "[New_b2World, SetContactListener True, MakeLayer_call ''/a/b'' (example_layer ''map''),
          MakeModel_call ''/a/b/foo.yaml'' [] ''robot'', TransformAll_call 0 (0, 1, 0),
          Models_push_back 0]"
           and nm = "''arm''" and ns = "[]"]
    by (simp add: defs)
  then have v5: \<open>map model_namespace (case fst (MakeWorld (example_env (example_world [example_layer ''map''] [example_entry ''foo.yaml'', YMap [(''name'', YScalar ''arm''), (''pose'', YSeq [YScalar ''0'', YScalar ''1'', YScalar ''0'']), (''model'', YScalar ''foo.yaml'')]])) ''/a/b/world.yaml'') of
         Ok w \<Rightarrow> models w | _ \<Rightarrow> []) = [[], []]\<close>
    by simp
  show ?thesis
    using v1 v2 v3 v4 v5 by simp
qed


section \<open>The handlers of MakeWorld\<close>

lemma MakeWorld_catch_not_handled:
  "\<not> handled env e \<Longrightarrow> MakeWorld_catch env (Throw e) w log = (Throw e, Some w, log)"
  by (cases e) simp_all






end
